theory Spec2Isabelle
  imports Main
begin

section \<open>Python values used by \<open>base.py\<close>\<close>

text \<open>
  Exceptions of the constructor and of \<open>download_everything\<close> are values. The
  source raises \<open>NotImplementedError\<close> with a message for every configuration error;
  reading an attribute that was never assigned raises \<open>AttributeError\<close> (the argument
  is the attribute's name); calling an object that is not callable raises
  \<open>TypeError\<close>; \<open>pathlib.Path.mkdir\<close> raises one of the three \<open>OSError\<close>
  subclasses below, with the path. \<open>FetchError\<close> is any exception of a class defined
  outside \<open>base.py\<close> that a download routine lets through.
\<close>

type_synonym path = "string list"

datatype error =
    NotImplementedError string
  | AttributeError string
  | FileExistsError path
  | FileNotFoundError path
  | NotADirectoryError path
  | TypeError string
  | FetchError string

text \<open>
  The \<open>years\<close> argument. \<open>YInt\<close> is any instance of \<open>int\<close>, \<open>YList\<close> a list of
  ints, and \<open>YStr\<close> and \<open>YTuple\<close> stand for the arguments that are neither: any string
  and any tuple of ints.
\<close>

datatype years_arg =
    YNone
  | YStr string
  | YInt int
  | YList "int list"
  | YTuple "int list"

text \<open>
  \<open>years_to_download\<close> holds a tuple on two branches of the source and a list on the
  two others; \<open>items\<close> is what iterating over either gives.
\<close>

datatype pyseq = PyTuple "int list" | PyList "int list"

fun items :: "pyseq \<Rightarrow> int list" where
  "items (PyTuple ys) = ys"
| "items (PyList ys) = ys"

text \<open>\<open>str\<close> of an int, as the f-string of the error message formats it.\<close>

fun digits :: "nat \<Rightarrow> string" where
  "digits n =
     (if n < 10 then [char_of (48 + n)]
      else digits (n div 10) @ [char_of (48 + n mod 10)])"

declare digits.simps [simp del]

definition str_int :: "int \<Rightarrow> string" where
  "str_int i = (if i < 0 then CHR ''-'' # digits (nat (- i)) else digits (nat i))"

text \<open>\<open>int(y)\<close> on an int returns it.\<close>

definition py_int :: "int \<Rightarrow> int" where
  "py_int y = y"

text \<open>\<open>max\<close> of a non-empty tuple; on the empty one Python raises, and no caller here passes it.\<close>

definition py_max :: "int list \<Rightarrow> int" where
  "py_max ys = fold max (tl ys) (hd ys)"

section \<open>The environment and the file system\<close>

text \<open>
  \<open>os.getenv(name, default)\<close>: the variable's value when it is set (also when it is
  set to the empty string), the default otherwise.
\<close>

definition getenv :: "(string \<rightharpoonup> string) \<Rightarrow> string \<Rightarrow> string option \<Rightarrow> string option" where
  "getenv environ name dflt = (case environ name of Some v \<Rightarrow> Some v | None \<Rightarrow> dflt)"

text \<open>Truth value of \<open>None\<close> or a string: \<open>None\<close> and \<open>""\<close> are false.\<close>

fun truthy_str :: "string option \<Rightarrow> bool" where
  "truthy_str None = False"
| "truthy_str (Some s) = (s \<noteq> [])"

text \<open>
  A path is its list of components below the root, and the file system maps the paths
  that exist to what is there. The root itself always exists and is a directory.
\<close>

datatype node = Dir | File

type_synonym fs = "path \<rightharpoonup> node"

definition node_at :: "fs \<Rightarrow> path \<Rightarrow> node option" where
  "node_at f p = (if p = [] then Some Dir else f p)"

definition exists_path :: "fs \<Rightarrow> path \<Rightarrow> bool" where
  "exists_path f p = (node_at f p \<noteq> None)"

definition joinpath :: "path \<Rightarrow> string \<Rightarrow> path" where
  "joinpath p name = p @ [name]"

text \<open>
  \<open>Path.mkdir()\<close> with its default arguments (\<open>parents=False\<close>, \<open>exist_ok=False\<close>):
  it fails when the path is there already, when the parent is missing or when the parent
  is not a directory.
\<close>

definition mkdir :: "fs \<Rightarrow> path \<Rightarrow> error + fs" where
  "mkdir f p =
     (if exists_path f p then Inl (FileExistsError p)
      else (case node_at f (butlast p) of
              None \<Rightarrow> Inl (FileNotFoundError p)
            | Some File \<Rightarrow> Inl (NotADirectoryError p)
            | Some Dir \<Rightarrow> Inr (f(p \<mapsto> Dir))))"

text \<open>\<open>if not p.exists(): p.mkdir()\<close>\<close>

definition ensure_dir :: "fs \<Rightarrow> path \<Rightarrow> error + fs" where
  "ensure_dir f p = (if \<not> exists_path f p then mkdir f p else Inr f)"

section \<open>\<open>BaseDownloader.__init__\<close>\<close>

definition YEAR_LIST :: "int list" where
  "YEAR_LIST = [2017, 2016, 2015, 2014, 2013, 2012, 2011, 2010, 2009]"

record args =
  arg_api_key :: "string option"
  arg_source :: string
  arg_years :: years_arg
  arg_data_dir :: "path option"
  arg_force :: bool

text \<open>
  \<open>arg_data_dir\<close> is \<open>None\<close> for an argument that is false (\<open>None\<close>, the empty
  string) and \<open>Some p\<close> for one that is true, \<open>p\<close> being \<open>pathlib.Path(str(data_dir))\<close>.
\<close>

record BaseDownloader =
  CENSUS_API_KEY :: string
  source :: string
  force :: bool
  years_to_download :: pyseq
  data_dir :: path
  raw_data_dir :: path
  processed_data_dir :: path

text \<open>
  The \<open>if\<close>/\<open>elif\<close> chain on \<open>years\<close>. It has no \<open>else\<close>: for any other
  argument the attribute is not assigned, which is \<open>None\<close> here.
\<close>

fun resolve_years :: "years_arg \<Rightarrow> pyseq option" where
  "resolve_years (YStr s) = (if s = ''all'' then Some (PyTuple YEAR_LIST) else None)"
| "resolve_years (YInt y) = Some (PyList [y])"
| "resolve_years (YList ys) = Some (PyList (map py_int ys))"
| "resolve_years YNone = Some (PyTuple [py_max YEAR_LIST])"
| "resolve_years (YTuple ys) = None"

definition error_msg :: string where
  "error_msg =
     ''Data only available for the years '' @ str_int (last YEAR_LIST) @ ''-''
       @ str_int (hd YEAR_LIST) @ ''.''"

text \<open>The validation loop: the first year that is not in \<open>YEAR_LIST\<close> raises.\<close>

fun validate_years :: "int list \<Rightarrow> error option" where
  "validate_years [] = None"
| "validate_years (year # rest) =
     (if year \<notin> set YEAR_LIST then Some (NotImplementedError error_msg)
      else validate_years rest)"

text \<open>
  The three \<open>exists\<close>/\<open>mkdir\<close> pairs, in the source's order. A \<open>mkdir\<close> that raises
  leaves the directories made before it.
\<close>

fun make_dirs :: "fs \<Rightarrow> path list \<Rightarrow> (error + unit) \<times> fs" where
  "make_dirs f [] = (Inr (), f)"
| "make_dirs f (p # ps) =
     (case ensure_dir f p of
        Inl e \<Rightarrow> (Inl e, f)
      | Inr f' \<Rightarrow> make_dirs f' ps)"

text \<open>
  The constructor. \<open>this_dir\<close> is \<open>THIS_DIR\<close>, the directory of the installed module;
  \<open>environ\<close> is the process environment. The result is the exception or the object,
  with the file system as the constructor leaves it.
\<close>

definition init ::
  "path \<Rightarrow> (string \<rightharpoonup> string) \<Rightarrow> fs \<Rightarrow> args \<Rightarrow> (error + BaseDownloader) \<times> fs" where
  "init this_dir environ f a =
     (let key = getenv environ ''CENSUS_API_KEY'' (arg_api_key a) in
      if \<not> truthy_str key
      then (Inl (NotImplementedError
                  ''Census API key required. Pass it as the first argument.''), f)
      else
        (case resolve_years (arg_years a) of
           None \<Rightarrow> (Inl (AttributeError ''years_to_download''), f)
         | Some ys \<Rightarrow>
             (case validate_years (items ys) of
                Some e \<Rightarrow> (Inl e, f)
              | None \<Rightarrow>
                  (let dd = (case arg_data_dir a of
                               Some p \<Rightarrow> p
                             | None \<Rightarrow> joinpath this_dir ''data'');
                       raw = joinpath dd ''raw'';
                       processed = joinpath dd ''processed''
                   in case make_dirs f [dd, raw, processed] of
                        (Inl e, f') \<Rightarrow> (Inl e, f')
                      | (Inr u, f') \<Rightarrow>
                          (Inr \<lparr> CENSUS_API_KEY = the key,
                                 source = arg_source a,
                                 force = arg_force a,
                                 years_to_download = ys,
                                 data_dir = dd,
                                 raw_data_dir = raw,
                                 processed_data_dir = processed \<rparr>, f')))))"


section \<open>\<open>BaseDownloader.download_everything\<close>\<close>

definition GEO_LIST :: "string list" where
  "GEO_LIST =
     [''nationwide'', ''states'', ''congressional_districts'', ''counties'', ''places'',
      ''urban_areas'', ''msas'', ''csas'', ''pumas'', ''aiannh_homelands'', ''zctas'',
      ''state_legislative_upper_districts'', ''state_legislative_lower_districts'',
      ''tracts'']"

text \<open>
  What \<open>getattr\<close> can return, as far as \<open>download_everything\<close> looks at it: the truth
  value of the object and, when it is callable, what calling it without arguments does
  to the world \<open>'w\<close> outside the program (the Census API and the files written). A call
  returns \<open>None\<close> or raises.
\<close>

datatype 'w pyobj =
  PyObj (truthy: bool) (call: "('w \<Rightarrow> (error + unit) \<times> 'w) option")

definition py_None :: "'w pyobj" where
  "py_None = PyObj False None"

definition callable :: "'w pyobj \<Rightarrow> bool" where
  "callable ob = (case call ob of None \<Rightarrow> False | Some r \<Rightarrow> True)"

text \<open>\<open>ob()\<close>\<close>

definition invoke :: "'w pyobj \<Rightarrow> 'w \<Rightarrow> (error + unit) \<times> 'w" where
  "invoke ob w =
     (case call ob of
        None \<Rightarrow> (Inl (TypeError ''object is not callable''), w)
      | Some r \<Rightarrow> r w)"

text \<open>\<open>getattr(self, name, None)\<close> on an object whose attributes are \<open>attrs\<close>.\<close>

definition getattr_default :: "(string \<rightharpoonup> 'w pyobj) \<Rightarrow> string \<Rightarrow> 'w pyobj" where
  "getattr_default attrs name = (case attrs name of Some v \<Rightarrow> v | None \<Rightarrow> py_None)"

text \<open>
  The loop of \<open>download_everything\<close> over the rest of the geography list. \<open>calls\<close> is
  the list of the attributes called so far, kept to state in which order the routines
  run; the source has no such variable. A routine that raises ends the loop.
\<close>

fun run_geos ::
  "(string \<rightharpoonup> 'w pyobj) \<Rightarrow> string list \<Rightarrow> string list \<Rightarrow> 'w
     \<Rightarrow> (error + unit) \<times> string list \<times> 'w" where
  "run_geos attrs [] calls w = (Inr (), calls, w)"
| "run_geos attrs (geo # rest) calls w =
     (let dl = getattr_default attrs (''download_'' @ geo) in
      if \<not> truthy dl \<or> \<not> callable dl
      then (Inl (NotImplementedError (''Invalid geography type: '' @ geo)), calls, w)
      else
        (case invoke dl w of
           (Inl e, w') \<Rightarrow> (Inl e, calls @ [''download_'' @ geo], w')
         | (Inr u, w') \<Rightarrow> run_geos attrs rest (calls @ [''download_'' @ geo]) w'))"

text \<open>
  \<open>download_everything\<close> of an object with the attributes \<open>attrs\<close> whose class has the
  geography list \<open>geo_list\<close> (subclasses can override \<open>GEO_LIST\<close>).
\<close>

definition download_everything ::
  "(string \<rightharpoonup> 'w pyobj) \<Rightarrow> string list \<Rightarrow> 'w \<Rightarrow> (error + unit) \<times> string list \<times> 'w" where
  "download_everything attrs geo_list w = run_geos attrs geo_list [] w"

text \<open>
  The fourteen decorated methods of \<open>BaseDownloader\<close>, in the order of the source,
  each with the class of \<open>core.downloaders\<close> that its body returns.
\<close>

definition BaseDownloader_methods :: "(string \<times> string) list" where
  "BaseDownloader_methods =
     [(''download_nationwide'', ''NationwideRawDownloader''),
      (''download_states'', ''StatesRawDownloader''),
      (''download_congressional_districts'', ''CongressionalDistrictsRawDownloader''),
      (''download_counties'', ''CountiesRawDownloader''),
      (''download_places'', ''PlacesRawDownloader''),
      (''download_tracts'', ''TractsRawDownloader''),
      (''download_state_legislative_upper_districts'',
       ''StateLegislativeUpperDistrictsRawDownloader''),
      (''download_state_legislative_lower_districts'',
       ''StateLegislativeLowerDistrictsRawDownloader''),
      (''download_urban_areas'', ''UrbanAreasRawDownloader''),
      (''download_msas'', ''MsasRawDownloader''),
      (''download_csas'', ''CsasRawDownloader''),
      (''download_pumas'', ''PumasRawDownloader''),
      (''download_aiannh_homelands'', ''AiannhHomelandsRawDownloader''),
      (''download_zctas'', ''ZctasRawDownloader'')]"

text \<open>
  Modelled from the spec: \<open>decorators.downloader\<close> of \<open>core/decorators.py\<close>, which is
  not among the sources. The spec says that for each geography "a dedicated routine
  exists" that selects the fetch strategy and triggers the fetches, and that it is
  "independently invocable": the decorated method is a callable object, true as every
  function is. What running it does is the parameter \<open>run\<close>, given the class the method
  returns.
\<close>

definition decorators_downloader ::
  "(string \<Rightarrow> 'w \<Rightarrow> (error + unit) \<times> 'w) \<Rightarrow> string \<Rightarrow> 'w pyobj" where
  "decorators_downloader run klass = PyObj True (Some (run klass))"

text \<open>The attributes of a \<open>BaseDownloader\<close> under the names of its decorated methods.\<close>

definition BaseDownloader_routines ::
  "(string \<Rightarrow> 'w \<Rightarrow> (error + unit) \<times> 'w) \<Rightarrow> (string \<rightharpoonup> 'w pyobj)" where
  "BaseDownloader_routines run name =
     map_option (decorators_downloader run) (map_of BaseDownloader_methods name)"

text \<open>
  The attributes of a \<open>BaseDownloader\<close> whose names start with \<open>download_\<close>, the only
  names the loop asks for: the decorated methods and \<open>download_everything\<close> itself, a
  bound method, which is callable and true. Calling the bound method runs the loop over
  \<open>GEO_LIST\<close> and returns \<open>None\<close> or raises. Its loop asks for the names
  \<open>download_\<close> followed by an identifier of \<open>GEO_LIST\<close>, none of which is
  \<open>download_everything\<close>, so it is written over the decorated methods; that it is the
  loop over all the attributes is the lemma \<open>download_everything_bound_method\<close>.
\<close>

definition BaseDownloader_attrs ::
  "(string \<Rightarrow> 'w \<Rightarrow> (error + unit) \<times> 'w) \<Rightarrow> (string \<rightharpoonup> 'w pyobj)" where
  "BaseDownloader_attrs run name =
     (if name = ''download_everything''
      then Some (PyObj True
             (Some (\<lambda>w. let r = download_everything (BaseDownloader_routines run) GEO_LIST w
                         in (fst r, snd (snd r)))))
      else BaseDownloader_routines run name)"

text \<open>
  A geography has an implemented routine when the check of the loop lets it through.
\<close>

definition implemented :: "(string \<rightharpoonup> 'w pyobj) \<Rightarrow> string \<Rightarrow> bool" where
  "implemented attrs geo =
     (let dl = getattr_default attrs (''download_'' @ geo) in truthy dl \<and> callable dl)"

section \<open>The table configurations of \<open>tables/mobility.py\<close>\<close>

text \<open>
  A class statement assigns some of the four attributes; \<open>None\<close> is an attribute that
  the class body does not assign. An \<open>OrderedDict\<close> built from a literal without
  repeated keys is the list of its items in the order written.
\<close>

type_synonym crosswalk = "(string \<times> string) list"

record class_body =
  PROCESSED_TABLE_NAME :: "string option"
  UNIVERSE :: "string option"
  RAW_TABLE_NAME :: "string option"
  RAW_FIELD_CROSSWALK :: "crosswalk option"

datatype pyclass = PyClass (body: class_body) (base: "pyclass option")

text \<open>
  Attribute lookup on a class with at most one base: the class's own body first, then
  the base's, and so on up.
\<close>

fun lookup :: "(class_body \<Rightarrow> 'a option) \<Rightarrow> pyclass \<Rightarrow> 'a option" where
  "lookup sel (PyClass b parent) =
     (case sel b of
        Some v \<Rightarrow> Some v
      | None \<Rightarrow> (case parent of None \<Rightarrow> None | Some p \<Rightarrow> lookup sel p))"

text \<open>
  The six classes. \<open>BaseTableConfig\<close> comes from \<open>core/tables.py\<close>, which is not
  among the sources, so it is the parameter \<open>btc\<close>. The decorator \<open>register\<close> of
  \<open>core/decorators.py\<close> is not among them either; the spec gives it no effect but the
  entry it adds to the registry, so each name stays bound to the class written.
\<close>

definition MobilityDownloader :: "pyclass \<Rightarrow> pyclass" where
  "MobilityDownloader btc =
     PyClass
       \<lparr> PROCESSED_TABLE_NAME = Some ''mobility'',
         UNIVERSE = Some ''population 1 year and over'',
         RAW_TABLE_NAME = Some ''B07003'',
         RAW_FIELD_CROSSWALK = Some
           [(''001E'', ''universe''),
            (''004E'', ''same_house''),
            (''007E'', ''moved_within_county''),
            (''010E'', ''moved_from_different_county_in_same_state''),
            (''013E'', ''moved_from_different_state''),
            (''016E'', ''moved_from_abroad'')] \<rparr>
       (Some btc)"

definition MobilityBySexDownloader :: "pyclass \<Rightarrow> pyclass" where
  "MobilityBySexDownloader btc =
     PyClass
       \<lparr> PROCESSED_TABLE_NAME = Some ''mobilitybysex'',
         UNIVERSE = None,
         RAW_TABLE_NAME = None,
         RAW_FIELD_CROSSWALK = Some
           [(''001E'', ''universe''),
            (''002E'', ''male_total''),
            (''003E'', ''female_total''),
            (''004E'', ''total_same_house''),
            (''005E'', ''male_same_house''),
            (''006E'', ''female_same_house''),
            (''007E'', ''total_moved_within_county''),
            (''008E'', ''male_moved_within_county''),
            (''009E'', ''female_moved_within_county''),
            (''010E'', ''total_moved_from_different_county_in_same_state''),
            (''011E'', ''male_moved_from_different_county_in_same_state''),
            (''012E'', ''female_moved_from_different_county_in_same_state''),
            (''013E'', ''total_moved_from_different_state''),
            (''014E'', ''male_moved_from_different_state''),
            (''015E'', ''female_moved_from_different_state''),
            (''016E'', ''total_moved_from_abroad''),
            (''017E'', ''male_moved_from_abroad''),
            (''018E'', ''female_moved_from_abroad'')] \<rparr>
       (Some (MobilityDownloader btc))"

definition MobilityWhiteDownloader :: "pyclass \<Rightarrow> pyclass" where
  "MobilityWhiteDownloader btc =
     PyClass
       \<lparr> PROCESSED_TABLE_NAME = Some ''mobilitywhite'',
         UNIVERSE = Some ''population 1 year and over'',
         RAW_TABLE_NAME = Some ''B07004H'',
         RAW_FIELD_CROSSWALK = Some
           [(''001E'', ''universe''),
            (''002E'', ''same_house''),
            (''003E'', ''moved_within_county''),
            (''004E'', ''moved_from_different_county_in_same_state''),
            (''005E'', ''moved_from_different_state''),
            (''006E'', ''moved_from_abroad'')] \<rparr>
       (Some btc)"

definition MobilityBlackDownloader :: "pyclass \<Rightarrow> pyclass" where
  "MobilityBlackDownloader btc =
     PyClass
       \<lparr> PROCESSED_TABLE_NAME = Some ''mobilityblack'',
         UNIVERSE = None,
         RAW_TABLE_NAME = Some ''B07004B'',
         RAW_FIELD_CROSSWALK = None \<rparr>
       (Some (MobilityWhiteDownloader btc))"

definition MobilityAsianDownloader :: "pyclass \<Rightarrow> pyclass" where
  "MobilityAsianDownloader btc =
     PyClass
       \<lparr> PROCESSED_TABLE_NAME = Some ''mobilityasian'',
         UNIVERSE = None,
         RAW_TABLE_NAME = Some ''B07004D'',
         RAW_FIELD_CROSSWALK = None \<rparr>
       (Some (MobilityWhiteDownloader btc))"

definition MobilityLatinoDownloader :: "pyclass \<Rightarrow> pyclass" where
  "MobilityLatinoDownloader btc =
     PyClass
       \<lparr> PROCESSED_TABLE_NAME = Some ''mobilitylatino'',
         UNIVERSE = None,
         RAW_TABLE_NAME = Some ''B07004I'',
         RAW_FIELD_CROSSWALK = None \<rparr>
       (Some (MobilityWhiteDownloader btc))"

text \<open>
  The property \<open>censusreporter_url\<close> of an object of class \<open>c\<close>. The constructor
  assigns no \<open>RAW_TABLE_NAME\<close> to the object, so \<open>self.RAW_TABLE_NAME\<close> is the
  attribute of the class, and reading it fails when no class on the way up assigns it.
  The getter is one \<open>return\<close> of an f-string: it assigns nothing, and so the model
  takes and returns no state.
\<close>

definition censusreporter_url :: "pyclass \<Rightarrow> error + string" where
  "censusreporter_url c =
     (case lookup RAW_TABLE_NAME c of
        None \<Rightarrow> Inl (AttributeError ''RAW_TABLE_NAME'')
      | Some t \<Rightarrow> Inr (''https://censusreporter.org/tables/'' @ t @ ''/''))"


section \<open>The rules of the specification\<close>

text \<open>
  The four accepted forms of \<open>years\<close> and the documented resolution rule, written from
  the specification: all nine supported years from 2017 down to 2009 for \<open>"all"\<close>, the
  one year for a single int, the years given for a list, and 2017, the most recent
  supported year, when unset.
\<close>

fun accepted_form :: "years_arg \<Rightarrow> bool" where
  "accepted_form (YStr s) = (s = ''all'')"
| "accepted_form (YInt y) = True"
| "accepted_form (YList ys) = True"
| "accepted_form YNone = True"
| "accepted_form (YTuple ys) = False"

fun documented_years :: "years_arg \<Rightarrow> int list option" where
  "documented_years (YStr s) =
     (if s = ''all'' then Some [2017, 2016, 2015, 2014, 2013, 2012, 2011, 2010, 2009]
      else None)"
| "documented_years (YInt y) = Some [y]"
| "documented_years (YList ys) = Some ys"
| "documented_years YNone = Some [2017]"
| "documented_years (YTuple ys) = None"

text \<open>
  What the specification says of the dispatch, as a function of the routines alone: the
  routines are invoked one after the other in a fixed order, each on the world the one
  before left, and the exception of a routine propagates unchanged and aborts the
  remaining ones.
\<close>

fun call_in_order ::
  "(string \<Rightarrow> 'w \<Rightarrow> (error + unit) \<times> 'w) \<Rightarrow> string list \<Rightarrow> 'w \<Rightarrow> (error + unit) \<times> 'w" where
  "call_in_order run [] w = (Inr (), w)"
| "call_in_order run (k # ks) w =
     (case run k w of
        (Inl e, w') \<Rightarrow> (Inl e, w')
      | (Inr u, w') \<Rightarrow> call_in_order run ks w')"

section \<open>Example inputs\<close>

text \<open>
  An installation in the directory \<open>census_data_downloader\<close>, which exists and holds
  no \<open>data\<close> directory yet; an environment that sets the key; the arguments of a call
  that passes at most \<open>api_key\<close> and \<open>years\<close>; and what such a call leaves.
\<close>

definition example_dir :: path where
  "example_dir = [''census_data_downloader'']"

definition example_fs :: fs where
  "example_fs = [example_dir \<mapsto> Dir]"

definition example_env :: "string \<rightharpoonup> string" where
  "example_env = [''CENSUS_API_KEY'' \<mapsto> ''0123abc'']"

definition example_args :: "string option \<Rightarrow> years_arg \<Rightarrow> args" where
  "example_args k y =
     \<lparr> arg_api_key = k, arg_source = ''acs5'', arg_years = y, arg_data_dir = None,
       arg_force = False \<rparr>"

definition example_fs_after :: fs where
  "example_fs_after =
     example_fs(example_dir @ [''data''] \<mapsto> Dir,
                example_dir @ [''data'', ''raw''] \<mapsto> Dir,
                example_dir @ [''data'', ''processed''] \<mapsto> Dir)"

definition example_obj :: "string \<Rightarrow> pyseq \<Rightarrow> BaseDownloader" where
  "example_obj k ys =
     \<lparr> CENSUS_API_KEY = k, source = ''acs5'', force = False, years_to_download = ys,
       data_dir = example_dir @ [''data''],
       raw_data_dir = example_dir @ [''data'', ''raw''],
       processed_data_dir = example_dir @ [''data'', ''processed''] \<rparr>"

text \<open>
  A file system where \<open>out\<close> is a directory that holds a regular file \<open>raw\<close>, and a
  call that passes \<open>out\<close> as \<open>data_dir\<close>.
\<close>

definition example_fs_raw_file :: fs where
  "example_fs_raw_file = [[''out''] \<mapsto> Dir, [''out'', ''raw''] \<mapsto> File]"

definition example_args_out :: args where
  "example_args_out =
     \<lparr> arg_api_key = Some ''0123abc'', arg_source = ''acs5'', arg_years = YNone,
       arg_data_dir = Some [''out''], arg_force = False \<rparr>"

definition example_obj_out :: BaseDownloader where
  "example_obj_out =
     \<lparr> CENSUS_API_KEY = ''0123abc'', source = ''acs5'', force = False,
       years_to_download = PyTuple [2017],
       data_dir = [''out''],
       raw_data_dir = [''out'', ''raw''],
       processed_data_dir = [''out'', ''processed''] \<rparr>"


definition log_run :: "string \<Rightarrow> string list \<Rightarrow> (error + unit) \<times> string list" where
  "log_run klass w = (Inr (), w @ [klass])"

definition failing_run :: "string \<Rightarrow> string list \<Rightarrow> (error + unit) \<times> string list" where
  "failing_run klass w =
     (if klass = ''PlacesRawDownloader'' then (Inl (FetchError ''timeout''), w)
      else (Inr (), w @ [klass]))"

text \<open>A \<open>BaseTableConfig\<close> that assigns none of the four attributes and has no base.\<close>

definition example_BaseTableConfig :: pyclass where
  "example_BaseTableConfig =
     PyClass
       \<lparr> PROCESSED_TABLE_NAME = None, UNIVERSE = None, RAW_TABLE_NAME = None,
         RAW_FIELD_CROSSWALK = None \<rparr>
       None"


section \<open>Facts about the constructor's parts\<close>

lemma error_msg_eq: "error_msg = ''Data only available for the years 2009-2017.''"
  by code_simp

lemma set_YEAR_LIST: "set YEAR_LIST = {2009..2017}"
  by (auto simp: YEAR_LIST_def)

lemma py_max_YEAR_LIST: "py_max YEAR_LIST = 2017"
  by (simp add: py_max_def YEAR_LIST_def)

lemma map_py_int: "map py_int ys = ys"
  by (induction ys) (simp_all add: py_int_def)

lemma resolve_years_refines: "map_option items (resolve_years y) = documented_years y"
  by (cases y) (simp_all add: map_py_int py_max_YEAR_LIST, simp add: YEAR_LIST_def)

lemma resolve_years_None_iff: "resolve_years y = None \<longleftrightarrow> \<not> accepted_form y"
  by (cases y) simp_all

lemma validate_years_None_iff: "validate_years ys = None \<longleftrightarrow> set ys \<subseteq> set YEAR_LIST"
  by (induction ys) auto

lemma validate_years_Some: "validate_years ys = Some e \<Longrightarrow> e = NotImplementedError error_msg"
  by (induction ys) (auto split: if_splits)

lemma ensure_dir_exists: "ensure_dir f p = Inr f' \<Longrightarrow> exists_path f' p"
  by (auto simp: ensure_dir_def mkdir_def exists_path_def node_at_def
      split: if_splits option.splits node.splits)

lemma ensure_dir_keeps: "ensure_dir f p = Inr f' \<Longrightarrow> exists_path f q \<Longrightarrow> exists_path f' q"
  by (auto simp: ensure_dir_def mkdir_def exists_path_def node_at_def
      split: if_splits option.splits node.splits)

lemma ensure_dir_present: "exists_path f p \<Longrightarrow> ensure_dir f p = Inr f"
  by (simp add: ensure_dir_def)

lemma ensure_dir_error:
  "ensure_dir f p = Inl e \<Longrightarrow> e = FileNotFoundError p \<or> e = NotADirectoryError p"
  by (auto simp: ensure_dir_def mkdir_def split: if_splits option.splits node.splits)

lemma make_dirs_keeps: "make_dirs f ps = (Inr u, f') \<Longrightarrow> exists_path f q \<Longrightarrow> exists_path f' q"
  by (induction ps arbitrary: f) (auto split: sum.splits dest: ensure_dir_keeps)

lemma make_dirs_exist: "make_dirs f ps = (Inr u, f') \<Longrightarrow> p \<in> set ps \<Longrightarrow> exists_path f' p"
proof (induction ps arbitrary: f)
  case Nil
  then show ?case by simp
next
  case (Cons q ps)
  from Cons.prems(1) obtain g where g: "ensure_dir f q = Inr g"
    and rest: "make_dirs g ps = (Inr u, f')"
    by (auto split: sum.splits)
  show ?case
  proof (cases "p = q")
    case True
    with g have "exists_path g p" by (simp add: ensure_dir_exists)
    with rest show ?thesis by (rule make_dirs_keeps)
  next
    case False
    with Cons.prems(2) have "p \<in> set ps" by simp
    with rest show ?thesis by (rule Cons.IH)
  qed
qed

lemma make_dirs_present: "(\<forall>p\<in>set ps. exists_path f p) \<Longrightarrow> make_dirs f ps = (Inr (), f)"
  by (induction ps) (auto simp: ensure_dir_present)

lemma make_dirs_error:
  "make_dirs f ps = (Inl e, f') \<Longrightarrow> \<exists>p. e = FileNotFoundError p \<or> e = NotADirectoryError p"
  by (induction ps arbitrary: f) (auto split: sum.splits dest: ensure_dir_error)

lemma init_key_error:
  "\<not> truthy_str (getenv environ ''CENSUS_API_KEY'' (arg_api_key a)) \<Longrightarrow>
   init this_dir environ f a =
     (Inl (NotImplementedError ''Census API key required. Pass it as the first argument.''), f)"
  by (simp add: init_def)

lemma init_invalid_year:
  assumes "truthy_str (getenv environ ''CENSUS_API_KEY'' (arg_api_key a))"
    and "resolve_years (arg_years a) = Some ys"
    and "\<not> set (items ys) \<subseteq> set YEAR_LIST"
  shows "init this_dir environ f a = (Inl (NotImplementedError error_msg), f)"
proof -
  from assms(3) obtain e where e: "validate_years (items ys) = Some e"
    using validate_years_None_iff [of "items ys"] by (cases "validate_years (items ys)") auto
  then have "e = NotImplementedError error_msg" by (rule validate_years_Some)
  with e assms(1,2) show ?thesis by (simp add: init_def)
qed

lemma init_valid_years:
  assumes "resolve_years (arg_years a) = Some ys"
    and "set (items ys) \<subseteq> set YEAR_LIST"
  shows "fst (init this_dir environ f a) \<noteq> Inl (NotImplementedError error_msg)"
proof -
  have v: "validate_years (items ys) = None"
    using assms(2) by (simp add: validate_years_None_iff)
  have msg: "error_msg \<noteq> ''Census API key required. Pass it as the first argument.''"
    by (simp add: error_msg_eq)
  show ?thesis
    using assms(1) v msg
    by (auto simp: init_def Let_def simp del: make_dirs.simps
        split: prod.splits sum.splits dest: make_dirs_error)
qed

subsection \<open>The example call\<close>

lemma example_make_dirs:
  "make_dirs example_fs
     [example_dir @ [''data''], example_dir @ [''data'', ''raw''],
      example_dir @ [''data'', ''processed'']] = (Inr (), example_fs_after)"
  by (simp add: example_fs_def example_fs_after_def example_dir_def ensure_dir_def mkdir_def
      exists_path_def node_at_def)

lemma example_init:
  assumes "resolve_years y = Some s" and "validate_years (items s) = None"
    and "getenv environ ''CENSUS_API_KEY'' k = Some v" and "v \<noteq> []"
  shows "init example_dir environ example_fs (example_args k y)
           = (Inr (example_obj v s), example_fs_after)"
  using assms example_make_dirs
  by (simp add: init_def example_args_def example_obj_def joinpath_def)

lemma example_getenv: "getenv example_env ''CENSUS_API_KEY'' k = Some ''0123abc''"
  by (simp add: getenv_def example_env_def)

lemma example_init_unset:
  "init example_dir example_env example_fs (example_args k YNone)
     = (Inr (example_obj ''0123abc'' (PyTuple [2017])), example_fs_after)"
  by (rule example_init [OF _ _ example_getenv]) (simp_all add: YEAR_LIST_def py_max_def)

section \<open>The constructor\<close>

text \<open>
  Claim C1. When the \<open>years\<close> argument has one of the four accepted forms, the
  \<open>years_to_download\<close> of the constructed object are the years of the documented
  rule: the nine supported years from 2017 down to 2009 for \<open>"all"\<close>, \<open>[y]\<close> for a
  single int \<open>y\<close>, the years of the list for a list, and 2017 alone when unset.
\<close>

theorem years_to_download_resolution:
  assumes "documented_years (arg_years a) = Some ys"
    and "init this_dir environ f a = (Inr d, f')"
  shows "items (years_to_download d) = ys"
proof -
  from assms(2) obtain s where s: "resolve_years (arg_years a) = Some s"
    and d: "years_to_download d = s"
    by (auto simp: init_def Let_def split: if_splits option.splits sum.splits prod.splits)
  from s have "map_option items (resolve_years (arg_years a)) = Some (items s)" by simp
  with assms(1) have "items s = ys" by (simp add: resolve_years_refines)
  with d show ?thesis by simp
qed

theorem years_to_download_resolution_witness:
  "init example_dir example_env example_fs (example_args None (YStr ''all''))
     = (Inr (example_obj ''0123abc'' (PyTuple YEAR_LIST)), example_fs_after)
   \<and> items (years_to_download (example_obj ''0123abc'' (PyTuple YEAR_LIST)))
       = [2017, 2016, 2015, 2014, 2013, 2012, 2011, 2010, 2009]
   \<and> init example_dir example_env example_fs (example_args None (YInt 2012))
       = (Inr (example_obj ''0123abc'' (PyList [2012])), example_fs_after)
   \<and> items (years_to_download (example_obj ''0123abc'' (PyList [2012]))) = [2012]
   \<and> init example_dir example_env example_fs (example_args None (YList [2010, 2015]))
       = (Inr (example_obj ''0123abc'' (PyList [2010, 2015])), example_fs_after)
   \<and> items (years_to_download (example_obj ''0123abc'' (PyList [2010, 2015]))) = [2010, 2015]
   \<and> init example_dir example_env example_fs (example_args None YNone)
       = (Inr (example_obj ''0123abc'' (PyTuple [2017])), example_fs_after)
   \<and> items (years_to_download (example_obj ''0123abc'' (PyTuple [2017]))) = [2017]"
proof -
  have all: "init example_dir example_env example_fs (example_args None (YStr ''all''))
      = (Inr (example_obj ''0123abc'' (PyTuple YEAR_LIST)), example_fs_after)"
    by (rule example_init [OF _ _ example_getenv]) (simp_all add: YEAR_LIST_def)
  have one: "init example_dir example_env example_fs (example_args None (YInt 2012))
      = (Inr (example_obj ''0123abc'' (PyList [2012])), example_fs_after)"
    by (rule example_init [OF _ _ example_getenv]) (simp_all add: YEAR_LIST_def)
  have some: "init example_dir example_env example_fs (example_args None (YList [2010, 2015]))
      = (Inr (example_obj ''0123abc'' (PyList [2010, 2015])), example_fs_after)"
    by (rule example_init [OF _ _ example_getenv]) (simp_all add: YEAR_LIST_def py_int_def)
  note unset = example_init_unset [of None]
  have "items (years_to_download (example_obj ''0123abc'' (PyTuple YEAR_LIST)))
      = [2017, 2016, 2015, 2014, 2013, 2012, 2011, 2010, 2009]"
    using years_to_download_resolution [OF _ all] by (simp add: example_args_def)
  moreover have "items (years_to_download (example_obj ''0123abc'' (PyList [2012]))) = [2012]"
    using years_to_download_resolution [OF _ one] by (simp add: example_args_def)
  moreover have "items (years_to_download (example_obj ''0123abc'' (PyList [2010, 2015])))
      = [2010, 2015]"
    using years_to_download_resolution [OF _ some] by (simp add: example_args_def)
  moreover have "items (years_to_download (example_obj ''0123abc'' (PyTuple [2017]))) = [2017]"
    using years_to_download_resolution [OF _ unset] by (simp add: example_args_def)
  ultimately show ?thesis using all one some unset by (simp only: simp_thms)
qed

text \<open>
  Claim C3. With a key present and \<open>years\<close> resolved to \<open>ys\<close>: if some year of \<open>ys\<close>
  lies outside 2009 to 2017, the constructor raises \<open>NotImplementedError\<close> with the
  message "Data only available for the years 2009-2017." and touches no directory; if
  every year lies inside, the validation loop raises nothing and the constructor does
  not raise that error.
\<close>

theorem unsupported_year_rejected:
  assumes "truthy_str (getenv environ ''CENSUS_API_KEY'' (arg_api_key a))"
    and "resolve_years (arg_years a) = Some ys"
  shows "((\<exists>y\<in>set (items ys). y < 2009 \<or> 2017 < y) \<longrightarrow>
            init this_dir environ f a =
              (Inl (NotImplementedError ''Data only available for the years 2009-2017.''), f))
       \<and> ((\<forall>y\<in>set (items ys). 2009 \<le> y \<and> y \<le> 2017) \<longrightarrow>
            validate_years (items ys) = None
            \<and> fst (init this_dir environ f a) \<noteq>
                Inl (NotImplementedError ''Data only available for the years 2009-2017.''))"
proof (intro conjI impI)
  assume "\<exists>y\<in>set (items ys). y < 2009 \<or> 2017 < y"
  then have "\<not> set (items ys) \<subseteq> set YEAR_LIST"
    by (auto simp: set_YEAR_LIST)
  with assms show "init this_dir environ f a =
      (Inl (NotImplementedError ''Data only available for the years 2009-2017.''), f)"
    by (simp add: init_invalid_year flip: error_msg_eq)
next
  assume "\<forall>y\<in>set (items ys). 2009 \<le> y \<and> y \<le> 2017"
  then have sub: "set (items ys) \<subseteq> set YEAR_LIST"
    by (auto simp: set_YEAR_LIST)
  then show "validate_years (items ys) = None"
    by (simp add: validate_years_None_iff)
  from assms(2) sub show "fst (init this_dir environ f a) \<noteq>
      Inl (NotImplementedError ''Data only available for the years 2009-2017.'')"
    using init_valid_years [of a ys this_dir environ f] by (simp add: error_msg_eq)
qed

theorem unsupported_year_rejected_witness:
  "truthy_str (getenv example_env ''CENSUS_API_KEY'' None)
   \<and> resolve_years (YList [2016, 2018]) = Some (PyList [2016, 2018])
   \<and> init example_dir example_env example_fs (example_args None (YList [2016, 2018])) =
       (Inl (NotImplementedError ''Data only available for the years 2009-2017.''), example_fs)
   \<and> resolve_years (YInt 2008) = Some (PyList [2008])
   \<and> init example_dir example_env example_fs (example_args None (YInt 2008)) =
       (Inl (NotImplementedError ''Data only available for the years 2009-2017.''), example_fs)
   \<and> resolve_years (YList [2009, 2017]) = Some (PyList [2009, 2017])
   \<and> validate_years [2009, 2017] = None
   \<and> fst (init example_dir example_env example_fs (example_args None (YList [2009, 2017]))) \<noteq>
       Inl (NotImplementedError ''Data only available for the years 2009-2017.'')"
proof -
  have k: "truthy_str (getenv example_env ''CENSUS_API_KEY'' (arg_api_key (example_args None y)))"
    for y by (simp add: example_getenv)
  have r1: "resolve_years (arg_years (example_args None (YList [2016, 2018])))
      = Some (PyList [2016, 2018])"
    by (simp add: example_args_def py_int_def)
  have r2: "resolve_years (arg_years (example_args None (YInt 2008))) = Some (PyList [2008])"
    by (simp add: example_args_def)
  have r3: "resolve_years (arg_years (example_args None (YList [2009, 2017])))
      = Some (PyList [2009, 2017])"
    by (simp add: example_args_def py_int_def)
  show ?thesis
    using unsupported_year_rejected [OF k r1, of example_dir example_fs]
      unsupported_year_rejected [OF k r2, of example_dir example_fs]
      unsupported_year_rejected [OF k r3, of example_dir example_fs]
    by (simp add: example_getenv py_int_def)
qed

text \<open>
  Claim C4, as stated: an explicit \<open>api_key\<close> argument is the key used, and the
  environment variable is read only when none is passed. The source calls
  \<open>os.getenv("CENSUS_API_KEY", api_key)\<close>, which puts the environment first: with
  the variable set to \<open>0123abc\<close> and the argument \<open>explicit\<close>, the object holds
  \<open>0123abc\<close>.
\<close>

theorem explicit_api_key_overridden_by_environment:
  "map_sum id CENSUS_API_KEY
     (fst (init example_dir example_env example_fs (example_args (Some ''explicit'') YNone)))
   = Inr ''0123abc''"
  by (simp add: example_init_unset example_obj_def)

text \<open>
  Claim C4, amended. The explicit argument is the fallback: in every successful
  construction, the key of the object is the value of \<open>CENSUS_API_KEY\<close> when the
  environment sets it, whatever argument was passed, and it is the explicit argument
  only when the environment does not set the variable.
\<close>

theorem api_key_argument_is_fallback:
  assumes "init this_dir environ f a = (Inr d, f')"
  shows "(case environ ''CENSUS_API_KEY'' of
            Some v \<Rightarrow> CENSUS_API_KEY d = v
          | None \<Rightarrow> arg_api_key a = Some (CENSUS_API_KEY d))"
  using assms
  by (cases "arg_api_key a")
     (auto simp: init_def Let_def getenv_def
           split: if_splits option.splits sum.splits prod.splits)

theorem api_key_argument_is_fallback_witness:
  "init example_dir example_env example_fs (example_args (Some ''explicit'') YNone)
     = (Inr (example_obj ''0123abc'' (PyTuple [2017])), example_fs_after)
   \<and> example_env ''CENSUS_API_KEY'' = Some ''0123abc''
   \<and> CENSUS_API_KEY (example_obj ''0123abc'' (PyTuple [2017])) = ''0123abc''
   \<and> init example_dir Map.empty example_fs (example_args (Some ''explicit'') YNone)
       = (Inr (example_obj ''explicit'' (PyTuple [2017])), example_fs_after)
   \<and> arg_api_key (example_args (Some ''explicit'') YNone)
       = Some (CENSUS_API_KEY (example_obj ''explicit'' (PyTuple [2017])))"
proof -
  note set = example_init_unset [of "Some ''explicit''"]
  have unset: "init example_dir Map.empty example_fs (example_args (Some ''explicit'') YNone)
      = (Inr (example_obj ''explicit'' (PyTuple [2017])), example_fs_after)"
    by (rule example_init) (simp_all add: YEAR_LIST_def py_max_def getenv_def)
  have e: "example_env ''CENSUS_API_KEY'' = Some ''0123abc''"
    by (simp add: example_env_def)
  have "CENSUS_API_KEY (example_obj ''0123abc'' (PyTuple [2017])) = ''0123abc''"
    using api_key_argument_is_fallback [OF set] by (simp add: e)
  moreover have "arg_api_key (example_args (Some ''explicit'') YNone)
      = Some (CENSUS_API_KEY (example_obj ''explicit'' (PyTuple [2017])))"
    using api_key_argument_is_fallback [OF unset] by simp
  ultimately show ?thesis using set unset e by (simp only: simp_thms)
qed

text \<open>
  Claim C5. A construction without an \<open>api_key\<close> argument, in an environment where
  \<open>CENSUS_API_KEY\<close> is unset or empty, raises \<open>NotImplementedError\<close> ("Census API key
  required. Pass it as the first argument."), whatever the other arguments are, and
  leaves the file system as it was.
\<close>

theorem missing_api_key_rejected:
  assumes "arg_api_key a = None"
    and "environ ''CENSUS_API_KEY'' = None \<or> environ ''CENSUS_API_KEY'' = Some []"
  shows "init this_dir environ f a =
     (Inl (NotImplementedError ''Census API key required. Pass it as the first argument.''), f)"
  using assms by (auto simp: init_key_error getenv_def)

theorem missing_api_key_rejected_witness:
  "arg_api_key (example_args None (YInt 1999)) = None
   \<and> (Map.empty :: string \<rightharpoonup> string) ''CENSUS_API_KEY'' = None
   \<and> init example_dir Map.empty example_fs (example_args None (YInt 1999)) =
       (Inl (NotImplementedError ''Census API key required. Pass it as the first argument.''),
        example_fs)
   \<and> [''CENSUS_API_KEY'' \<mapsto> []] ''CENSUS_API_KEY'' = Some []
   \<and> init example_dir [''CENSUS_API_KEY'' \<mapsto> []] example_fs (example_args None (YTuple [])) =
       (Inl (NotImplementedError ''Census API key required. Pass it as the first argument.''),
        example_fs)"
  using missing_api_key_rejected
      [of "example_args None (YInt 1999)" Map.empty example_dir example_fs]
    missing_api_key_rejected
      [of "example_args None (YTuple [])" "[''CENSUS_API_KEY'' \<mapsto> []]" example_dir example_fs]
  by (simp add: example_args_def)

lemma ensure_dir_node:
  "ensure_dir f p = Inr f' \<Longrightarrow>
   node_at f' q = (if q = p \<and> node_at f p = None then Some Dir else node_at f q)"
  by (auto simp: ensure_dir_def mkdir_def exists_path_def node_at_def
      split: if_splits option.splits node.splits)

lemma make_dirs_node:
  "make_dirs f ps = (Inr u, f') \<Longrightarrow>
   node_at f' q = (if q \<in> set ps \<and> node_at f q = None then Some Dir else node_at f q)"
proof (induction ps arbitrary: f)
  case Nil
  then show ?case by simp
next
  case (Cons p ps)
  from Cons.prems obtain g where g: "ensure_dir f p = Inr g"
    and rest: "make_dirs g ps = (Inr u, f')"
    by (auto split: sum.splits)
  from ensure_dir_node [OF g, of q] Cons.IH [OF rest] show ?case
    by (auto split: if_splits)
qed

lemma example_init_out:
  "init example_dir example_env example_fs_raw_file example_args_out
     = (Inr example_obj_out, example_fs_raw_file([''out'', ''processed''] \<mapsto> Dir))"
  by (simp add: init_def Let_def example_args_out_def example_obj_out_def
      example_fs_raw_file_def getenv_def example_env_def YEAR_LIST_def py_max_def
      joinpath_def ensure_dir_def mkdir_def exists_path_def node_at_def)

text \<open>
  Claim C7, as stated: construction ensures that \<open>data_dir\<close> and its \<open>raw\<close> and
  \<open>processed\<close> subdirectories exist. The source asks \<open>exists()\<close> before each
  \<open>mkdir()\<close>, and a regular file exists: where \<open>out\<close> is a directory that holds a
  regular file \<open>raw\<close>, construction with \<open>data_dir\<close> \<open>out\<close> succeeds, makes the
  directory \<open>processed\<close> only, and \<open>raw_data_dir\<close> is still the regular file.
\<close>

theorem existing_file_kept_as_raw_data_dir:
  "init example_dir example_env example_fs_raw_file example_args_out
     = (Inr example_obj_out, example_fs_raw_file([''out'', ''processed''] \<mapsto> Dir))
   \<and> node_at (example_fs_raw_file([''out'', ''processed''] \<mapsto> Dir))
         (raw_data_dir example_obj_out) = Some File"
  by (simp add: example_init_out)
      (simp add: node_at_def example_obj_out_def example_fs_raw_file_def)

text \<open>
  Claim C7, amended. After a construction that succeeds, \<open>data_dir\<close> (the argument,
  or \<open>THIS_DIR/data\<close>) and its \<open>raw\<close> and \<open>processed\<close> children exist: each of the
  three that was missing is now a directory, and each that was there already, as a
  directory or as a file, is left as it was. The same construction run again on the
  file system it left succeeds, gives the same object and changes nothing.
\<close>

theorem directory_creation_idempotent:
  assumes "init this_dir environ f a = (Inr d, f')"
  shows "exists_path f' (data_dir d) \<and> exists_path f' (raw_data_dir d)
       \<and> exists_path f' (processed_data_dir d)
       \<and> node_at f' (data_dir d)
           = (case node_at f (data_dir d) of None \<Rightarrow> Some Dir | Some n \<Rightarrow> Some n)
       \<and> node_at f' (raw_data_dir d)
           = (case node_at f (raw_data_dir d) of None \<Rightarrow> Some Dir | Some n \<Rightarrow> Some n)
       \<and> node_at f' (processed_data_dir d)
           = (case node_at f (processed_data_dir d) of None \<Rightarrow> Some Dir | Some n \<Rightarrow> Some n)
       \<and> data_dir d = (case arg_data_dir a of Some p \<Rightarrow> p | None \<Rightarrow> this_dir @ [''data''])
       \<and> raw_data_dir d = data_dir d @ [''raw'']
       \<and> processed_data_dir d = data_dir d @ [''processed'']
       \<and> init this_dir environ f' a = (Inr d, f')"
proof -
  let ?dd = "case arg_data_dir a of Some p \<Rightarrow> p | None \<Rightarrow> joinpath this_dir ''data''"
  let ?ps = "[?dd, joinpath ?dd ''raw'', joinpath ?dd ''processed'']"
  from assms obtain ys u
    where key: "truthy_str (getenv environ ''CENSUS_API_KEY'' (arg_api_key a))"
    and ys: "resolve_years (arg_years a) = Some ys"
    and v: "validate_years (items ys) = None"
    and m: "make_dirs f ?ps = (Inr u, f')"
    and d: "d = \<lparr> CENSUS_API_KEY = the (getenv environ ''CENSUS_API_KEY'' (arg_api_key a)),
                  source = arg_source a, force = arg_force a, years_to_download = ys,
                  data_dir = ?dd, raw_data_dir = joinpath ?dd ''raw'',
                  processed_data_dir = joinpath ?dd ''processed'' \<rparr>"
    by (auto simp: init_def Let_def split: if_splits option.splits sum.splits prod.splits)
  have ex: "\<forall>p\<in>set ?ps. exists_path f' p"
    using make_dirs_exist [OF m] by blast
  then have again: "make_dirs f' ?ps = (Inr (), f')"
    by (rule make_dirs_present)
  have node: "node_at f' q = (case node_at f q of None \<Rightarrow> Some Dir | Some n \<Rightarrow> Some n)"
    if "q \<in> set ?ps" for q
    using make_dirs_node [OF m, of q] that by (auto split: option.splits)
  have n1: "node_at f' (data_dir d)
      = (case node_at f (data_dir d) of None \<Rightarrow> Some Dir | Some n \<Rightarrow> Some n)"
    using node [of "data_dir d"] d by simp
  have n2: "node_at f' (raw_data_dir d)
      = (case node_at f (raw_data_dir d) of None \<Rightarrow> Some Dir | Some n \<Rightarrow> Some n)"
    using node [of "raw_data_dir d"] d by simp
  have n3: "node_at f' (processed_data_dir d)
      = (case node_at f (processed_data_dir d) of None \<Rightarrow> Some Dir | Some n \<Rightarrow> Some n)"
    using node [of "processed_data_dir d"] d by simp
  have "init this_dir environ f' a = (Inr d, f')"
    using key ys v again d by (simp add: init_def Let_def)
  moreover have "exists_path f' (data_dir d) \<and> exists_path f' (raw_data_dir d)
       \<and> exists_path f' (processed_data_dir d)"
    using ex d by simp
  moreover have "data_dir d
        = (case arg_data_dir a of Some p \<Rightarrow> p | None \<Rightarrow> this_dir @ [''data''])
       \<and> raw_data_dir d = data_dir d @ [''raw'']
       \<and> processed_data_dir d = data_dir d @ [''processed'']"
    using d by (simp add: joinpath_def split: option.splits)
  ultimately show ?thesis using n1 n2 n3 by blast
qed

theorem directory_creation_idempotent_witness:
  "init example_dir example_env example_fs (example_args None YNone)
     = (Inr (example_obj ''0123abc'' (PyTuple [2017])), example_fs_after)
   \<and> \<not> exists_path example_fs (example_dir @ [''data''])
   \<and> node_at example_fs_after (example_dir @ [''data'']) = Some Dir
   \<and> node_at example_fs_after (example_dir @ [''data'', ''raw'']) = Some Dir
   \<and> node_at example_fs_after (example_dir @ [''data'', ''processed'']) = Some Dir
   \<and> init example_dir example_env example_fs_after (example_args None YNone)
       = (Inr (example_obj ''0123abc'' (PyTuple [2017])), example_fs_after)
   \<and> init example_dir example_env example_fs_raw_file example_args_out
       = (Inr example_obj_out, example_fs_raw_file([''out'', ''processed''] \<mapsto> Dir))
   \<and> node_at (example_fs_raw_file([''out'', ''processed''] \<mapsto> Dir)) [''out'', ''raw'']
       = Some File
   \<and> node_at (example_fs_raw_file([''out'', ''processed''] \<mapsto> Dir)) [''out'', ''processed'']
       = Some Dir
   \<and> init example_dir example_env (example_fs_raw_file([''out'', ''processed''] \<mapsto> Dir))
         example_args_out
       = (Inr example_obj_out, example_fs_raw_file([''out'', ''processed''] \<mapsto> Dir))"
proof -
  note first = example_init_unset [of None]
  have out: "init example_dir example_env example_fs_raw_file example_args_out
      = (Inr example_obj_out, example_fs_raw_file([''out'', ''processed''] \<mapsto> Dir))"
    by (rule example_init_out)
  have before: "\<not> exists_path example_fs (example_dir @ [''data''])
      \<and> node_at example_fs (example_dir @ [''data'']) = None
      \<and> node_at example_fs (example_dir @ [''data'', ''raw'']) = None
      \<and> node_at example_fs (example_dir @ [''data'', ''processed'']) = None"
    by (simp add: exists_path_def node_at_def example_fs_def example_dir_def)
  have before_out: "node_at example_fs_raw_file [''out'', ''raw''] = Some File
      \<and> node_at example_fs_raw_file [''out'', ''processed''] = None"
    by (simp add: node_at_def example_fs_raw_file_def)
  from directory_creation_idempotent [OF first] before
  have a: "node_at example_fs_after (example_dir @ [''data'']) = Some Dir
      \<and> node_at example_fs_after (example_dir @ [''data'', ''raw'']) = Some Dir
      \<and> node_at example_fs_after (example_dir @ [''data'', ''processed'']) = Some Dir
      \<and> init example_dir example_env example_fs_after (example_args None YNone)
          = (Inr (example_obj ''0123abc'' (PyTuple [2017])), example_fs_after)"
    by (simp add: example_obj_def)
  from directory_creation_idempotent [OF out] before_out
  have b: "node_at (example_fs_raw_file([''out'', ''processed''] \<mapsto> Dir)) [''out'', ''raw'']
        = Some File
      \<and> node_at (example_fs_raw_file([''out'', ''processed''] \<mapsto> Dir))
          [''out'', ''processed''] = Some Dir
      \<and> init example_dir example_env (example_fs_raw_file([''out'', ''processed''] \<mapsto> Dir))
           example_args_out
          = (Inr example_obj_out, example_fs_raw_file([''out'', ''processed''] \<mapsto> Dir))"
    by (simp add: example_obj_out_def)
  from first out before a b show ?thesis by blast
qed

text \<open>
  Claim C9. With a key present, a \<open>years\<close> argument that has none of the four accepted
  forms (a string other than \<open>"all"\<close>, a tuple) makes the constructor fail with the
  \<open>AttributeError\<close> of the unassigned \<open>years_to_download\<close>, not with a
  \<open>NotImplementedError\<close> about the argument, and before any directory is made.
\<close>

theorem unaccepted_years_attribute_error:
  assumes "truthy_str (getenv environ ''CENSUS_API_KEY'' (arg_api_key a))"
    and "\<not> accepted_form (arg_years a)"
  shows "init this_dir environ f a = (Inl (AttributeError ''years_to_download''), f)"
  using assms by (simp add: init_def resolve_years_None_iff [symmetric])

theorem unaccepted_years_attribute_error_witness:
  "truthy_str (getenv example_env ''CENSUS_API_KEY'' None)
   \<and> \<not> accepted_form (YStr ''2015'')
   \<and> init example_dir example_env example_fs (example_args None (YStr ''2015''))
       = (Inl (AttributeError ''years_to_download''), example_fs)
   \<and> \<not> accepted_form (YTuple [2015, 2016])
   \<and> init example_dir example_env example_fs (example_args None (YTuple [2015, 2016]))
       = (Inl (AttributeError ''years_to_download''), example_fs)"
  using unaccepted_years_attribute_error
      [of example_env "example_args None (YStr ''2015'')" example_dir example_fs]
    unaccepted_years_attribute_error
      [of example_env "example_args None (YTuple [2015, 2016])" example_dir example_fs]
  by (simp add: example_getenv example_args_def)

section \<open>The dispatch loop\<close>


lemma run_geos_all_implemented:
  assumes "\<forall>g\<in>set gs. implemented attrs g
             \<and> (\<forall>w. fst (invoke (getattr_default attrs (''download_'' @ g)) w) = Inr ())"
  shows "run_geos attrs gs calls w =
           (Inr (), calls @ map (\<lambda>g. ''download_'' @ g) gs,
            foldl (\<lambda>w g. snd (invoke (getattr_default attrs (''download_'' @ g)) w)) w gs)"
  using assms
proof (induction gs arbitrary: calls w)
  case Nil
  then show ?case by simp
next
  case (Cons g gs)
  let ?dl = "getattr_default attrs (''download_'' @ g)"
  from Cons.prems have ok: "truthy ?dl \<and> callable ?dl"
    and ret: "fst (invoke ?dl w) = Inr ()"
    by (simp_all add: implemented_def Let_def)
  from ret obtain w' where inv: "invoke ?dl w = (Inr (), w')"
    by (cases "invoke ?dl w") auto
  from Cons.prems have rest: "\<forall>g\<in>set gs. implemented attrs g
             \<and> (\<forall>w. fst (invoke (getattr_default attrs (''download_'' @ g)) w) = Inr ())"
    by simp
  show ?case
    using ok inv Cons.IH [OF rest, of "calls @ [''download_'' @ g]" w']
    by (simp add: Let_def)
qed






subsection \<open>The routines of \<open>BaseDownloader\<close>\<close>

lemma call_in_order_returns:
  "\<forall>k w0. fst (run k w0) = Inr () \<Longrightarrow>
   call_in_order run ks w = (Inr (), foldl (\<lambda>w k. snd (run k w)) w ks)"
proof (induction ks arbitrary: w)
  case Nil
  then show ?case by simp
next
  case (Cons k ks)
  from Cons.prems have "fst (run k w) = Inr ()" by blast
  then obtain w' where "run k w = (Inr (), w')" by (cases "run k w") auto
  with Cons.IH [OF Cons.prems, of w'] show ?case by simp
qed

lemma call_in_order_error:
  "fst (call_in_order run ks w) = Inl e \<Longrightarrow> \<exists>k w0. fst (run k w0) = Inl e"
proof (induction ks arbitrary: w)
  case Nil
  then show ?case by simp
next
  case (Cons k ks)
  obtain r w' where rw: "run k w = (r, w')" by (cases "run k w")
  show ?case
  proof (cases r)
    case (Inl e')
    with rw Cons.prems have "fst (run k w) = Inl e" by simp
    then show ?thesis by blast
  next
    case (Inr u)
    with rw Cons.prems have "fst (call_in_order run ks w') = Inl e" by simp
    then show ?thesis by (rule Cons.IH)
  qed
qed

lemma run_geos_call_in_order:
  assumes "list_all2 (\<lambda>g k. getattr_default attrs (''download_'' @ g) = PyObj True (Some (run k)))
             gs ks"
  shows "(fst (run_geos attrs gs calls w), snd (snd (run_geos attrs gs calls w)))
           = call_in_order run ks w"
  using assms
proof (induction gs ks arbitrary: calls w rule: list_all2_induct)
  case Nil
  then show ?case by simp
next
  case (Cons g gs k ks)
  from Cons.hyps(1) have dl: "getattr_default attrs (''download_'' @ g) = PyObj True (Some (run k))" .
  obtain r w' where rw: "run k w = (r, w')" by (cases "run k w")
  show ?case
  proof (cases r)
    case (Inl e)
    with dl rw show ?thesis by (simp add: callable_def invoke_def)
  next
    case (Inr u)
    with dl rw Cons.IH [of "calls @ [''download_'' @ g]" w'] show ?thesis
      by (simp add: callable_def invoke_def)
  qed
qed

lemma GEO_LIST_methods:
  "list_all2 (\<lambda>g k. map_of BaseDownloader_methods (''download_'' @ g) = Some k) GEO_LIST
     [''NationwideRawDownloader'', ''StatesRawDownloader'',
      ''CongressionalDistrictsRawDownloader'', ''CountiesRawDownloader'',
      ''PlacesRawDownloader'', ''UrbanAreasRawDownloader'', ''MsasRawDownloader'',
      ''CsasRawDownloader'', ''PumasRawDownloader'', ''AiannhHomelandsRawDownloader'',
      ''ZctasRawDownloader'', ''StateLegislativeUpperDistrictsRawDownloader'',
      ''StateLegislativeLowerDistrictsRawDownloader'', ''TractsRawDownloader'']"
  by (simp add: GEO_LIST_def BaseDownloader_methods_def)

lemma BaseDownloader_routines_Some:
  "map_of BaseDownloader_methods name = Some k \<Longrightarrow>
   getattr_default (BaseDownloader_routines run) name = PyObj True (Some (run k))"
  by (simp add: getattr_default_def BaseDownloader_routines_def decorators_downloader_def)

lemma BaseDownloader_attrs_Some:
  assumes "map_of BaseDownloader_methods name = Some k"
  shows "getattr_default (BaseDownloader_attrs run) name = PyObj True (Some (run k))"
proof -
  have "map_of BaseDownloader_methods ''download_everything'' = None"
    by (simp add: BaseDownloader_methods_def)
  with assms have "name \<noteq> ''download_everything''" by auto
  then have "getattr_default (BaseDownloader_attrs run) name
      = getattr_default (BaseDownloader_routines run) name"
    by (simp add: getattr_default_def BaseDownloader_attrs_def)
  with assms show ?thesis by (simp add: BaseDownloader_routines_Some)
qed

lemma GEO_LIST_attrs:
  "list_all2
     (\<lambda>g k. getattr_default (BaseDownloader_attrs run) (''download_'' @ g)
               = PyObj True (Some (run k)))
     GEO_LIST
     [''NationwideRawDownloader'', ''StatesRawDownloader'',
      ''CongressionalDistrictsRawDownloader'', ''CountiesRawDownloader'',
      ''PlacesRawDownloader'', ''UrbanAreasRawDownloader'', ''MsasRawDownloader'',
      ''CsasRawDownloader'', ''PumasRawDownloader'', ''AiannhHomelandsRawDownloader'',
      ''ZctasRawDownloader'', ''StateLegislativeUpperDistrictsRawDownloader'',
      ''StateLegislativeLowerDistrictsRawDownloader'', ''TractsRawDownloader'']"
  by (rule list_all2_mono [OF GEO_LIST_methods]) (rule BaseDownloader_attrs_Some)

lemma GEO_LIST_routines:
  "list_all2
     (\<lambda>g k. getattr_default (BaseDownloader_routines run) (''download_'' @ g)
               = PyObj True (Some (run k)))
     GEO_LIST
     [''NationwideRawDownloader'', ''StatesRawDownloader'',
      ''CongressionalDistrictsRawDownloader'', ''CountiesRawDownloader'',
      ''PlacesRawDownloader'', ''UrbanAreasRawDownloader'', ''MsasRawDownloader'',
      ''CsasRawDownloader'', ''PumasRawDownloader'', ''AiannhHomelandsRawDownloader'',
      ''ZctasRawDownloader'', ''StateLegislativeUpperDistrictsRawDownloader'',
      ''StateLegislativeLowerDistrictsRawDownloader'', ''TractsRawDownloader'']"
  by (rule list_all2_mono [OF GEO_LIST_methods]) (rule BaseDownloader_routines_Some)

lemma GEO_LIST_implemented:
  assumes "g \<in> set GEO_LIST"
  shows "implemented (BaseDownloader_attrs run) g"
proof -
  from assms GEO_LIST_methods
  obtain k where "map_of BaseDownloader_methods (''download_'' @ g) = Some k"
    by (auto simp: list_all2_conv_all_nth in_set_conv_nth)
  then show ?thesis
    by (simp add: implemented_def BaseDownloader_attrs_Some callable_def)
qed

text \<open>
  Calling the attribute \<open>download_everything\<close> of the object is running the loop on
  the object itself.
\<close>

lemma download_everything_bound_method:
  "invoke (getattr_default (BaseDownloader_attrs run) ''download_everything'') w =
     (fst (download_everything (BaseDownloader_attrs run) GEO_LIST w),
      snd (snd (download_everything (BaseDownloader_attrs run) GEO_LIST w)))"
  by (simp add: invoke_def getattr_default_def BaseDownloader_attrs_def Let_def
      download_everything_def run_geos_call_in_order [OF GEO_LIST_attrs]
      run_geos_call_in_order [OF GEO_LIST_routines])

text \<open>
  Claim C10. On a \<open>BaseDownloader\<close>, each of the fourteen distinct identifiers of
  \<open>GEO_LIST\<close> passes the check of \<open>download_everything\<close>, since the class has a
  decorated method for it. So the check never raises: the outcome of
  \<open>download_everything\<close> and the world it leaves are those of invoking the fourteen
  routines one after the other in the order of \<open>GEO_LIST\<close>, each once, up to the
  first that raises; an exception that leaves \<open>download_everything\<close> was raised by a
  routine; and when the routines return, the call succeeds, has called the fourteen
  attributes in the order of \<open>GEO_LIST\<close>, and leaves the world that the fourteen
  routines leave, run in that order.
\<close>

theorem every_geography_has_a_routine:
  "(\<forall>g\<in>set GEO_LIST. implemented (BaseDownloader_attrs run) g)
   \<and> length GEO_LIST = 14 \<and> distinct GEO_LIST
   \<and> (fst (download_everything (BaseDownloader_attrs run) GEO_LIST w),
       snd (snd (download_everything (BaseDownloader_attrs run) GEO_LIST w)))
       = call_in_order run
           [''NationwideRawDownloader'', ''StatesRawDownloader'',
            ''CongressionalDistrictsRawDownloader'', ''CountiesRawDownloader'',
            ''PlacesRawDownloader'', ''UrbanAreasRawDownloader'', ''MsasRawDownloader'',
            ''CsasRawDownloader'', ''PumasRawDownloader'', ''AiannhHomelandsRawDownloader'',
            ''ZctasRawDownloader'', ''StateLegislativeUpperDistrictsRawDownloader'',
            ''StateLegislativeLowerDistrictsRawDownloader'', ''TractsRawDownloader''] w
   \<and> (\<forall>e. fst (download_everything (BaseDownloader_attrs run) GEO_LIST w) = Inl e \<longrightarrow>
          (\<exists>k w0. fst (run k w0) = Inl e))
   \<and> ((\<forall>k w0. fst (run k w0) = Inr ()) \<longrightarrow>
        download_everything (BaseDownloader_attrs run) GEO_LIST w =
          (Inr (), map (\<lambda>g. ''download_'' @ g) GEO_LIST,
           foldl (\<lambda>w k. snd (run k w)) w
             [''NationwideRawDownloader'', ''StatesRawDownloader'',
              ''CongressionalDistrictsRawDownloader'', ''CountiesRawDownloader'',
              ''PlacesRawDownloader'', ''UrbanAreasRawDownloader'', ''MsasRawDownloader'',
              ''CsasRawDownloader'', ''PumasRawDownloader'', ''AiannhHomelandsRawDownloader'',
              ''ZctasRawDownloader'', ''StateLegislativeUpperDistrictsRawDownloader'',
              ''StateLegislativeLowerDistrictsRawDownloader'', ''TractsRawDownloader'']))"
proof -
  let ?ks = "[''NationwideRawDownloader'', ''StatesRawDownloader'',
      ''CongressionalDistrictsRawDownloader'', ''CountiesRawDownloader'',
      ''PlacesRawDownloader'', ''UrbanAreasRawDownloader'', ''MsasRawDownloader'',
      ''CsasRawDownloader'', ''PumasRawDownloader'', ''AiannhHomelandsRawDownloader'',
      ''ZctasRawDownloader'', ''StateLegislativeUpperDistrictsRawDownloader'',
      ''StateLegislativeLowerDistrictsRawDownloader'', ''TractsRawDownloader'']"
  let ?r = "download_everything (BaseDownloader_attrs run) GEO_LIST w"
  have all: "\<forall>g\<in>set GEO_LIST. implemented (BaseDownloader_attrs run) g"
    by (simp add: GEO_LIST_implemented)
  have len: "length GEO_LIST = 14" by (simp add: GEO_LIST_def)
  have dist: "distinct GEO_LIST" by (simp add: GEO_LIST_def)
  have spec: "(fst ?r, snd (snd ?r)) = call_in_order run ?ks w"
    unfolding download_everything_def by (rule run_geos_call_in_order [OF GEO_LIST_attrs])
  have err: "\<exists>k w0. fst (run k w0) = Inl e" if "fst ?r = Inl e" for e
  proof -
    from spec that have "fst (call_in_order run ?ks w) = Inl e"
      by (metis fst_conv)
    then show ?thesis by (rule call_in_order_error)
  qed
  have full: "?r = (Inr (), map (\<lambda>g. ''download_'' @ g) GEO_LIST,
      foldl (\<lambda>w k. snd (run k w)) w ?ks)" if ret: "\<forall>k w0. fst (run k w0) = Inr ()"
  proof -
    from spec call_in_order_returns [OF ret, of ?ks w]
    have o: "fst ?r = Inr ()" and wd: "snd (snd ?r) = foldl (\<lambda>w k. snd (run k w)) w ?ks"
      by simp_all
    have ok: "\<forall>g\<in>set GEO_LIST. implemented (BaseDownloader_attrs run) g
        \<and> (\<forall>w. fst (invoke (getattr_default (BaseDownloader_attrs run) (''download_'' @ g)) w)
                = Inr ())"
    proof (intro ballI conjI allI)
      fix g w1
      assume g: "g \<in> set GEO_LIST"
      then show "implemented (BaseDownloader_attrs run) g" by (rule GEO_LIST_implemented)
      from g GEO_LIST_methods
      obtain k where "map_of BaseDownloader_methods (''download_'' @ g) = Some k"
        by (auto simp: list_all2_conv_all_nth in_set_conv_nth)
      then have "invoke (getattr_default (BaseDownloader_attrs run) (''download_'' @ g)) w1
          = run k w1"
        by (simp add: BaseDownloader_attrs_Some invoke_def)
      with ret
      show "fst (invoke (getattr_default (BaseDownloader_attrs run) (''download_'' @ g)) w1)
          = Inr ()" by simp
    qed
    from run_geos_all_implemented [OF ok, of "[]" w]
    have "fst (snd ?r) = map (\<lambda>g. ''download_'' @ g) GEO_LIST"
      by (simp add: download_everything_def)
    with o wd show ?thesis by (metis prod.collapse)
  qed
  from all len dist spec err full show ?thesis by blast
qed

theorem every_geography_has_a_routine_witness:
  "list_all (implemented (BaseDownloader_attrs log_run)) GEO_LIST
   \<and> fst (log_run ''TractsRawDownloader'' []) = Inr ()
   \<and> download_everything (BaseDownloader_attrs log_run) GEO_LIST [] =
       (Inr (),
        [''download_nationwide'', ''download_states'', ''download_congressional_districts'',
         ''download_counties'', ''download_places'', ''download_urban_areas'',
         ''download_msas'', ''download_csas'', ''download_pumas'',
         ''download_aiannh_homelands'', ''download_zctas'',
         ''download_state_legislative_upper_districts'',
         ''download_state_legislative_lower_districts'', ''download_tracts''],
        [''NationwideRawDownloader'', ''StatesRawDownloader'',
         ''CongressionalDistrictsRawDownloader'', ''CountiesRawDownloader'',
         ''PlacesRawDownloader'', ''UrbanAreasRawDownloader'', ''MsasRawDownloader'',
         ''CsasRawDownloader'', ''PumasRawDownloader'', ''AiannhHomelandsRawDownloader'',
         ''ZctasRawDownloader'', ''StateLegislativeUpperDistrictsRawDownloader'',
         ''StateLegislativeLowerDistrictsRawDownloader'', ''TractsRawDownloader''])
   \<and> fst (download_everything (BaseDownloader_attrs failing_run) GEO_LIST [])
       = Inl (FetchError ''timeout'')
   \<and> snd (snd (download_everything (BaseDownloader_attrs failing_run) GEO_LIST []))
       = [''NationwideRawDownloader'', ''StatesRawDownloader'',
          ''CongressionalDistrictsRawDownloader'', ''CountiesRawDownloader'']
   \<and> fst (failing_run ''PlacesRawDownloader'' []) = Inl (FetchError ''timeout'')"
proof -
  note ok = every_geography_has_a_routine [of log_run "[]"]
  note bad = every_geography_has_a_routine [of failing_run "[]"]
  have ret: "\<forall>k w0. fst (log_run k w0) = Inr ()"
    by (simp add: log_run_def)
  from ok have "\<forall>g\<in>set GEO_LIST. implemented (BaseDownloader_attrs log_run) g"
    by (rule conjunct1)
  then have a: "list_all (implemented (BaseDownloader_attrs log_run)) GEO_LIST"
    by (simp only: list_all_iff)
  from ok ret
  have "download_everything (BaseDownloader_attrs log_run) GEO_LIST [] =
      (Inr (), map (\<lambda>g. ''download_'' @ g) GEO_LIST,
       foldl (\<lambda>w k. snd (log_run k w)) []
         [''NationwideRawDownloader'', ''StatesRawDownloader'',
          ''CongressionalDistrictsRawDownloader'', ''CountiesRawDownloader'',
          ''PlacesRawDownloader'', ''UrbanAreasRawDownloader'', ''MsasRawDownloader'',
          ''CsasRawDownloader'', ''PumasRawDownloader'', ''AiannhHomelandsRawDownloader'',
          ''ZctasRawDownloader'', ''StateLegislativeUpperDistrictsRawDownloader'',
          ''StateLegislativeLowerDistrictsRawDownloader'', ''TractsRawDownloader''])"
    by blast
  then have b: "download_everything (BaseDownloader_attrs log_run) GEO_LIST [] =
       (Inr (),
        [''download_nationwide'', ''download_states'', ''download_congressional_districts'',
         ''download_counties'', ''download_places'', ''download_urban_areas'',
         ''download_msas'', ''download_csas'', ''download_pumas'',
         ''download_aiannh_homelands'', ''download_zctas'',
         ''download_state_legislative_upper_districts'',
         ''download_state_legislative_lower_districts'', ''download_tracts''],
        [''NationwideRawDownloader'', ''StatesRawDownloader'',
         ''CongressionalDistrictsRawDownloader'', ''CountiesRawDownloader'',
         ''PlacesRawDownloader'', ''UrbanAreasRawDownloader'', ''MsasRawDownloader'',
         ''CsasRawDownloader'', ''PumasRawDownloader'', ''AiannhHomelandsRawDownloader'',
         ''ZctasRawDownloader'', ''StateLegislativeUpperDistrictsRawDownloader'',
         ''StateLegislativeLowerDistrictsRawDownloader'', ''TractsRawDownloader''])"
    by (simp add: log_run_def GEO_LIST_def)
  from bad
  have "(fst (download_everything (BaseDownloader_attrs failing_run) GEO_LIST []),
         snd (snd (download_everything (BaseDownloader_attrs failing_run) GEO_LIST [])))
      = call_in_order failing_run
         [''NationwideRawDownloader'', ''StatesRawDownloader'',
          ''CongressionalDistrictsRawDownloader'', ''CountiesRawDownloader'',
          ''PlacesRawDownloader'', ''UrbanAreasRawDownloader'', ''MsasRawDownloader'',
          ''CsasRawDownloader'', ''PumasRawDownloader'', ''AiannhHomelandsRawDownloader'',
          ''ZctasRawDownloader'', ''StateLegislativeUpperDistrictsRawDownloader'',
          ''StateLegislativeLowerDistrictsRawDownloader'', ''TractsRawDownloader''] []"
    by blast
  also have "\<dots> = (Inl (FetchError ''timeout''),
      [''NationwideRawDownloader'', ''StatesRawDownloader'',
       ''CongressionalDistrictsRawDownloader'', ''CountiesRawDownloader''])"
    by (simp add: failing_run_def)
  finally have c: "fst (download_everything (BaseDownloader_attrs failing_run) GEO_LIST [])
        = Inl (FetchError ''timeout'')
      \<and> snd (snd (download_everything (BaseDownloader_attrs failing_run) GEO_LIST []))
        = [''NationwideRawDownloader'', ''StatesRawDownloader'',
           ''CongressionalDistrictsRawDownloader'', ''CountiesRawDownloader'']"
    by simp
  have d: "fst (failing_run ''PlacesRawDownloader'' []) = Inl (FetchError ''timeout'')"
    by (simp add: failing_run_def)
  from ret have r: "fst (log_run ''TractsRawDownloader'' []) = Inr ()" by blast
  from r a b c d show ?thesis by blast
qed

section \<open>The table configurations\<close>

text \<open>
  Claim C6. \<open>MobilityBlackDownloader\<close> extends \<open>MobilityWhiteDownloader\<close> and assigns
  only the processed table name and the raw table name (\<open>B07004B\<close>); its field
  crosswalk is the one of \<open>MobilityWhiteDownloader\<close>, the same six codes with the same
  names in the same order. The same holds for \<open>MobilityAsianDownloader\<close> and
  \<open>MobilityLatinoDownloader\<close>. This holds whatever \<open>BaseTableConfig\<close> is.
\<close>

theorem inherited_crosswalk_identical:
  "lookup RAW_FIELD_CROSSWALK (MobilityWhiteDownloader btc) =
     Some [(''001E'', ''universe''),
           (''002E'', ''same_house''),
           (''003E'', ''moved_within_county''),
           (''004E'', ''moved_from_different_county_in_same_state''),
           (''005E'', ''moved_from_different_state''),
           (''006E'', ''moved_from_abroad'')]
   \<and> lookup RAW_FIELD_CROSSWALK (MobilityBlackDownloader btc)
       = lookup RAW_FIELD_CROSSWALK (MobilityWhiteDownloader btc)
   \<and> lookup RAW_FIELD_CROSSWALK (MobilityAsianDownloader btc)
       = lookup RAW_FIELD_CROSSWALK (MobilityWhiteDownloader btc)
   \<and> lookup RAW_FIELD_CROSSWALK (MobilityLatinoDownloader btc)
       = lookup RAW_FIELD_CROSSWALK (MobilityWhiteDownloader btc)
   \<and> body (MobilityBlackDownloader btc) =
       \<lparr> PROCESSED_TABLE_NAME = Some ''mobilityblack'', UNIVERSE = None,
         RAW_TABLE_NAME = Some ''B07004B'', RAW_FIELD_CROSSWALK = None \<rparr>
   \<and> base (MobilityBlackDownloader btc) = Some (MobilityWhiteDownloader btc)
   \<and> lookup RAW_TABLE_NAME (MobilityBlackDownloader btc) = Some ''B07004B''
   \<and> lookup PROCESSED_TABLE_NAME (MobilityBlackDownloader btc) = Some ''mobilityblack''
   \<and> lookup RAW_TABLE_NAME (MobilityWhiteDownloader btc) = Some ''B07004H''"
  by (simp add: MobilityWhiteDownloader_def MobilityBlackDownloader_def
      MobilityAsianDownloader_def MobilityLatinoDownloader_def)

text \<open>
  Claim C8. \<open>censusreporter_url\<close> is the fixed template around the raw table id: for a
  class whose \<open>RAW_TABLE_NAME\<close> is \<open>t\<close> it is "https://censusreporter.org/tables/",
  then \<open>t\<close>, then "/". It depends on nothing else: two classes with the same
  \<open>RAW_TABLE_NAME\<close> have the same URL. The getter is a function of the class alone, so
  computing it changes no state.
\<close>

theorem censusreporter_url_template:
  "(lookup RAW_TABLE_NAME c = Some t \<longrightarrow>
      censusreporter_url c = Inr (''https://censusreporter.org/tables/'' @ t @ ''/''))
   \<and> (lookup RAW_TABLE_NAME c = lookup RAW_TABLE_NAME c' \<longrightarrow>
        censusreporter_url c = censusreporter_url c')"
  by (simp add: censusreporter_url_def)

theorem censusreporter_url_template_witness:
  "lookup RAW_TABLE_NAME (MobilityBlackDownloader example_BaseTableConfig) = Some ''B07004B''
   \<and> censusreporter_url (MobilityBlackDownloader example_BaseTableConfig)
       = Inr ''https://censusreporter.org/tables/B07004B/''
   \<and> lookup RAW_TABLE_NAME (MobilityBySexDownloader example_BaseTableConfig)
       = lookup RAW_TABLE_NAME (MobilityDownloader example_BaseTableConfig)
   \<and> censusreporter_url (MobilityBySexDownloader example_BaseTableConfig)
       = censusreporter_url (MobilityDownloader example_BaseTableConfig)"
proof -
  have b: "lookup RAW_TABLE_NAME (MobilityBlackDownloader example_BaseTableConfig)
      = Some ''B07004B''"
    by (simp add: MobilityBlackDownloader_def)
  have s: "lookup RAW_TABLE_NAME (MobilityBySexDownloader example_BaseTableConfig)
      = lookup RAW_TABLE_NAME (MobilityDownloader example_BaseTableConfig)"
    by (simp add: MobilityBySexDownloader_def MobilityDownloader_def)
  show ?thesis
    using b s
      censusreporter_url_template
        [of "MobilityBlackDownloader example_BaseTableConfig" "''B07004B''"]
      censusreporter_url_template
        [of "MobilityBySexDownloader example_BaseTableConfig" _
            "MobilityDownloader example_BaseTableConfig"]
    by simp
qed

end
